theory Spec2Isabelle
  imports Main "HOL-Library.List_Lexorder" "HOL-Library.Char_ord"
begin

section \<open>Strings and integers as the Python code uses them\<close>

text \<open>
  Python strings are modelled as \<open>string\<close> (the UTF-8 bytes). The order of
  \<open>HOL-Library.List_Lexorder\<close> over \<open>HOL-Library.Char_ord\<close> is the
  lexicographic order on bytes, which on UTF-8 coincides with Python's code point order
  on \<open>str\<close>. Python's unbounded \<open>int\<close> is \<open>int\<close>; \<open>len\<close> is \<open>length\<close>.
\<close>

definition digit_char :: "nat \<Rightarrow> char" where
  "digit_char d = ''0123456789'' ! d"

text \<open>The decimal rendering of an f-string \<^verbatim>\<open>f"{n}"\<close> for \<open>n \<ge> 0\<close>.\<close>

function str_nat :: "nat \<Rightarrow> string" where
  "str_nat n = (if n < 10 then [digit_char n] else str_nat (n div 10) @ [digit_char (n mod 10)])"
  by pat_completeness auto
termination
  by (relation "measure (\<lambda>n. n)") auto

definition str_int :: "int \<Rightarrow> string" where
  "str_int i = (if i < 0 then CHR ''-'' # str_nat (nat (- i)) else str_nat (nat i))"

text \<open>
  \<^verbatim>\<open>s.lower()\<close> on the ASCII letters. The source only compares the lowered string with
  ASCII keywords (\<^verbatim>\<open>"desc"\<close>, \<^verbatim>\<open>"connection"\<close>, \<^verbatim>\<open>"timeout"\<close>, \<^verbatim>\<open>"certificate"\<close>),
  none of whose letters is the lower case of a non-ASCII character.
\<close>

definition lower_char :: "char \<Rightarrow> char" where
  "lower_char c = (if CHR ''A'' \<le> c \<and> c \<le> CHR ''Z'' then char_of (of_char c + (32::nat)) else c)"

definition lower :: "string \<Rightarrow> string" where
  "lower s = map lower_char s"

text \<open>\<^verbatim>\<open>sub in s\<close> on strings.\<close>

fun contains_str :: "string \<Rightarrow> string \<Rightarrow> bool" where
  "contains_str sub [] = (sub = [])"
| "contains_str sub (c # cs) = (take (length sub) (c # cs) = sub \<or> contains_str sub cs)"

text \<open>
  \<^verbatim>\<open>xs[i:j]\<close> on a list: a negative index counts from the end, and both indices are
  clamped to the list.
\<close>

definition clamp_index :: "int \<Rightarrow> nat \<Rightarrow> nat" where
  "clamp_index i n = (if i < 0 then nat (max 0 (i + int n)) else min (nat i) n)"

definition py_slice :: "'a list \<Rightarrow> int \<Rightarrow> int \<Rightarrow> 'a list" where
  "py_slice xs i j =
     (let a = clamp_index i (length xs); b = clamp_index j (length xs)
      in take (b - a) (drop a xs))"

text \<open>
  \<^verbatim>\<open>xs.sort(key=f, reverse=r)\<close>: a stable sort; with \<^verbatim>\<open>reverse=True\<close> CPython reverses
  the list, sorts it stably in ascending order and reverses the result, so that elements
  with equal keys keep their original order in both directions.
\<close>

definition py_sort :: "('a \<Rightarrow> 'k::linorder) \<Rightarrow> bool \<Rightarrow> 'a list \<Rightarrow> 'a list" where
  "py_sort f r xs = (if r then rev (sort_key f (rev xs)) else sort_key f xs)"


section \<open>The cluster objects read by \<^verbatim>\<open>routes/kubernetes.py\<close>\<close>

text \<open>
  The objects of the Kubernetes client library, with the attributes the routes read.
  An attribute the code tests for truthiness before use is an \<open>option\<close>;
  \<open>creation_timestamp\<close> holds the \<^verbatim>\<open>isoformat()\<close> rendering of the datetime. The phase
  is a string, as the \<^verbatim>\<open>str\<close> field of \<^verbatim>\<open>PodInfo\<close> asks.
\<close>

record V1Container =
  c_image :: string

record V1PodCondition =
  cond_type :: string
  cond_status :: string

record V1ContainerStatus =
  cs_restart_count :: int

record V1ObjectMeta =
  meta_name :: string
  meta_namespace :: string
  creation_timestamp :: "string option"
  labels :: "(string \<times> string) list option"

record V1PodSpec =
  containers :: "V1Container list"
  spec_node_name :: "string option"

record V1PodStatus =
  status_phase :: string
  conditions :: "V1PodCondition list option"
  container_statuses :: "V1ContainerStatus list option"
  status_pod_ip :: "string option"
  status_host_ip :: "string option"

record V1Pod =
  metadata :: V1ObjectMeta
  spec :: V1PodSpec
  status :: V1PodStatus

text \<open>\<^verbatim>\<open>helpers/models.py\<close>: \<^verbatim>\<open>PodInfo\<close>.\<close>

record PodInfo =
  pod_id :: string
  name :: string
  namespace :: string
  created_timestamp :: string
  phase :: string
  healthy :: bool
  ready :: string
  restart_count :: int
  pod_image :: string
  node_name :: "string option"
  pod_ip :: "string option"
  host_ip :: "string option"
  app_name :: "string option"


section \<open>The pod record built in the loop of \<^verbatim>\<open>get_kubernetes_pods\<close>\<close>

definition total_containers :: "V1Pod \<Rightarrow> nat" where
  "total_containers pod = length (containers (spec pod))"

text \<open>
  The loop over \<^verbatim>\<open>pod.status.conditions\<close>: the first condition of type \<^verbatim>\<open>Ready\<close> with
  status \<^verbatim>\<open>True\<close> sets \<^verbatim>\<open>ready_count = total_containers\<close> and breaks.
\<close>

fun ready_loop :: "V1PodCondition list \<Rightarrow> nat \<Rightarrow> nat \<Rightarrow> nat" where
  "ready_loop [] tc rc = rc"
| "ready_loop (c # cs) tc rc =
     (if cond_type c = ''Ready'' \<and> cond_status c = ''True'' then tc
      else ready_loop cs tc rc)"

definition ready_count :: "V1Pod \<Rightarrow> nat" where
  "ready_count pod =
     (case conditions (status pod) of
        None \<Rightarrow> 0
      | Some cs \<Rightarrow> if cs = [] then 0 else ready_loop cs (total_containers pod) 0)"

fun restart_loop :: "V1ContainerStatus list \<Rightarrow> int \<Rightarrow> int" where
  "restart_loop [] rc = rc"
| "restart_loop (s # ss) rc = restart_loop ss (rc + cs_restart_count s)"

definition pod_restart_count :: "V1Pod \<Rightarrow> int" where
  "pod_restart_count pod =
     (case container_statuses (status pod) of
        None \<Rightarrow> 0
      | Some ss \<Rightarrow> restart_loop ss 0)"

definition first_image :: "V1Pod \<Rightarrow> string" where
  "first_image pod = (case containers (spec pod) of [] \<Rightarrow> '''' | c # _ \<Rightarrow> c_image c)"

text \<open>
  \<^verbatim>\<open>labels.get("name") or labels.get("app")\<close>: the \<^verbatim>\<open>name\<close> label when it is present and
  not empty, else whatever \<^verbatim>\<open>get("app")\<close> gives. The labels are an association list
  read with \<open>map_of\<close>; a dict holds each key once.
\<close>

definition labels_name :: "V1Pod \<Rightarrow> string option" where
  "labels_name pod =
     (case labels (metadata pod) of
        None \<Rightarrow> None
      | Some ls \<Rightarrow>
          if ls = [] then None
          else (case map_of ls ''name'' of
                  Some v \<Rightarrow> if v \<noteq> '''' then Some v else map_of ls ''app''
                | None \<Rightarrow> map_of ls ''app''))"

definition make_pod_info :: "V1Pod \<Rightarrow> PodInfo" where
  "make_pod_info pod =
     \<lparr> pod_id = meta_namespace (metadata pod) @ ''-'' @ meta_name (metadata pod),
       name = meta_name (metadata pod),
       namespace = meta_namespace (metadata pod),
       created_timestamp = (case creation_timestamp (metadata pod) of Some t \<Rightarrow> t | None \<Rightarrow> ''''),
       phase = status_phase (status pod),
       healthy = (ready_count pod = total_containers pod \<and> status_phase (status pod) = ''Running''),
       ready = str_nat (ready_count pod) @ ''/'' @ str_nat (total_containers pod),
       restart_count = pod_restart_count pod,
       pod_image = first_image pod,
       node_name = spec_node_name (spec pod),
       pod_ip = status_pod_ip (status pod),
       host_ip = status_host_ip (status pod),
       app_name = labels_name pod \<rparr>"

text \<open>The conditions of a pod as a list, \<^verbatim>\<open>None\<close> read as no condition.\<close>

definition pod_conditions :: "V1Pod \<Rightarrow> V1PodCondition list" where
  "pod_conditions pod = (case conditions (status pod) of None \<Rightarrow> [] | Some cs \<Rightarrow> cs)"

definition ready_condition_true :: "V1Pod \<Rightarrow> bool" where
  "ready_condition_true pod =
     list_ex (\<lambda>c. cond_type c = ''Ready'' \<and> cond_status c = ''True'') (pod_conditions pod)"


section \<open>The cluster API\<close>

text \<open>
  The client calls can raise: \<^verbatim>\<open>ApiException\<close> with its status and reason, or any other
  \<^verbatim>\<open>Exception\<close> with its \<^verbatim>\<open>str\<close>. The cluster is the four calls the routes make; the
  label selector is always \<^verbatim>\<open>None\<close> in the source and the timeouts do not reach the
  result, so both are left out of the arguments.
\<close>

datatype exn = ApiException int string | OtherException string

record cluster =
  list_namespaced_pod :: "string \<Rightarrow> string option \<Rightarrow> int \<Rightarrow> exn + V1Pod list"
  list_pod_for_all_namespaces :: "string option \<Rightarrow> int \<Rightarrow> exn + V1Pod list"
  read_namespaced_pod :: "string \<Rightarrow> string \<Rightarrow> exn + V1Pod"
  delete_namespaced_pod :: "string \<Rightarrow> string \<Rightarrow> exn + unit"


section \<open>\<^verbatim>\<open>get_kubernetes_pods\<close>\<close>

text \<open>
  The query parameters; \<open>namespaces\<close> and \<open>statuses\<close> are the lists the handler parses
  from \<^verbatim>\<open>namespace_filter\<close> and \<^verbatim>\<open>status_filter\<close>. The declared bounds of \<^verbatim>\<open>page\<close> and
  \<^verbatim>\<open>page_size\<close> are \<open>valid_query\<close>: the framework answers a query outside them itself
  and the handler does not run.
\<close>

record pods_query =
  q_page :: int
  q_page_size :: int
  sort_by :: string
  sort_order :: string
  namespaces :: "string list"
  statuses :: "string list"

definition valid_query :: "pods_query \<Rightarrow> bool" where
  "valid_query q = (1 \<le> q_page q \<and> 1 \<le> q_page_size q \<and> q_page_size q \<le> 3000)"

record PaginationInfo =
  page :: int
  page_size :: int
  total_items :: int
  total_pages :: int
  has_next :: bool
  has_previous :: bool
  max_limit_reached :: bool

record KubernetesResponse =
  pods :: "PodInfo list"
  pagination :: "PaginationInfo option"
  kr_error :: "string option"
  kr_max_limit_reached :: bool

text \<open>One status is passed to the server as a field selector; none or several are not.\<close>

definition field_selector :: "string list \<Rightarrow> string option" where
  "field_selector sts = (case sts of [s] \<Rightarrow> Some (''status.phase='' @ s) | _ \<Rightarrow> None)"

text \<open>
  The loop over the requested namespaces: an exception of the call is caught and the
  loop continues; once 1000 pods are accumulated the flag is set and the loop breaks.
\<close>

fun fetch_namespaces ::
  "cluster \<Rightarrow> string option \<Rightarrow> int \<Rightarrow> string list \<Rightarrow> V1Pod list \<Rightarrow> V1Pod list \<times> bool" where
  "fetch_namespaces k fs lim [] all_pods = (all_pods, False)"
| "fetch_namespaces k fs lim (ns # rest) all_pods =
     (case list_namespaced_pod k ns fs lim of
        Inl e \<Rightarrow> fetch_namespaces k fs lim rest all_pods
      | Inr items \<Rightarrow>
          if length (all_pods @ items) \<ge> 1000 then (all_pods @ items, True)
          else fetch_namespaces k fs lim rest (all_pods @ items))"

text \<open>The fetch stage: the pods and \<^verbatim>\<open>max_limit_reached\<close>, or the exception of the cluster-wide call.\<close>

definition fetch_pods :: "cluster \<Rightarrow> pods_query \<Rightarrow> exn + (V1Pod list \<times> bool)" where
  "fetch_pods k q =
     (if namespaces q \<noteq> [] then
        Inr (fetch_namespaces k (field_selector (statuses q)) (q_page_size q) (namespaces q) [])
      else
        (case list_pod_for_all_namespaces k (field_selector (statuses q))
                (min (q_page_size q * 10) 1000) of
           Inl e \<Rightarrow> Inl e
         | Inr items \<Rightarrow> Inr (items, length items \<ge> 1000)))"

text \<open>The processing loop: a pod whose phase is not among the requested statuses is skipped.\<close>

fun process_pods :: "string list \<Rightarrow> V1Pod list \<Rightarrow> PodInfo list" where
  "process_pods sts [] = []"
| "process_pods sts (pod # rest) =
     (if sts \<noteq> [] \<and> status_phase (status pod) \<notin> set sts then process_pods sts rest
      else make_pod_info pod # process_pods sts rest)"

definition sort_pods :: "string \<Rightarrow> string \<Rightarrow> PodInfo list \<Rightarrow> PodInfo list" where
  "sort_pods sb so ps =
     (let reverse_sort = (lower so = ''desc'') in
      if sb = ''name'' then py_sort name reverse_sort ps
      else if sb = ''namespace'' then py_sort namespace reverse_sort ps
      else if sb = ''phase'' then py_sort phase reverse_sort ps
      else if sb = ''created_timestamp'' then py_sort created_timestamp reverse_sort ps
      else if sb = ''restart_count'' then py_sort restart_count reverse_sort ps
      else py_sort name reverse_sort ps)"

text \<open>
  Pagination and the reported total. \<open>reported_total\<close> is the pair
  (\<^verbatim>\<open>max_limit_reached\<close>, \<^verbatim>\<open>total_items\<close>) after the check against \<^verbatim>\<open>max_fetch_limit\<close>.
  The floor division raises for a zero page size.
\<close>

definition max_fetch_limit :: "pods_query \<Rightarrow> int" where
  "max_fetch_limit q = min (q_page_size q * 10) 1000"

definition reported_total :: "pods_query \<Rightarrow> V1Pod list \<Rightarrow> bool \<Rightarrow> PodInfo list \<Rightarrow> bool \<times> int" where
  "reported_total q all_pods mlr ps =
     (if int (length all_pods) \<ge> max_fetch_limit q then (True, 1000)
      else if mlr then (mlr, max 1000 (int (length ps)))
      else (mlr, int (length ps)))"

definition paginate ::
  "pods_query \<Rightarrow> V1Pod list \<Rightarrow> bool \<Rightarrow> PodInfo list \<Rightarrow> exn + (PodInfo list \<times> PaginationInfo)" where
  "paginate q all_pods mlr ps =
     (let start_idx = (q_page q - 1) * q_page_size q;
          end_idx = start_idx + q_page_size q;
          paginated_pods = py_slice ps start_idx end_idx;
          (mlr', total) = reported_total q all_pods mlr ps
      in if total > 0 \<and> q_page_size q = 0
         then Inl (OtherException ''integer division or modulo by zero'')
         else Inr (paginated_pods,
           \<lparr> page = q_page q,
             page_size = q_page_size q,
             total_items = total,
             total_pages = (if total > 0 then (total + q_page_size q - 1) div q_page_size q else 1),
             has_next = (end_idx < total),
             has_previous = (q_page q > 1),
             max_limit_reached = mlr' \<rparr>))"

text \<open>The two exception handlers of the route and their error messages.\<close>

definition api_error_message :: "int \<Rightarrow> string \<Rightarrow> string" where
  "api_error_message st reason =
     (if st = 404 then
        ''Kubernetes API server not found. Please ensure the application is '' @
        ''running inside a Kubernetes cluster or has proper kubeconfig setup.''
      else if st = 401 then
        ''Unauthorized access to Kubernetes API. Please check service account '' @
        ''permissions.''
      else if st = 403 then
        ''Forbidden access to Kubernetes API. Please check RBAC permissions.''
      else if st = 500 then ''Kubernetes API server internal error.''
      else ''Kubernetes API error ('' @ str_int st @ ''): '' @ reason)"

definition generic_error_message :: "string \<Rightarrow> string" where
  "generic_error_message msg =
     (if contains_str ''connection'' (lower msg) then
        ''Unable to connect to Kubernetes API server. Please ensure the '' @
        ''application is running inside a Kubernetes cluster or has proper '' @
        ''kubeconfig setup.''
      else if contains_str ''timeout'' (lower msg) then
        ''Timeout connecting to Kubernetes API server. Please check network '' @
        ''connectivity.''
      else if contains_str ''certificate'' (lower msg) then
        ''SSL/TLS certificate error when connecting to Kubernetes API. Please '' @
        ''check certificate configuration.''
      else ''Failed to get Kubernetes pods: '' @ msg)"

definition error_response :: "exn \<Rightarrow> KubernetesResponse" where
  "error_response e =
     \<lparr> pods = [], pagination = None,
       kr_error = Some (case e of
                          ApiException st reason \<Rightarrow> api_error_message st reason
                        | OtherException msg \<Rightarrow> generic_error_message msg),
       kr_max_limit_reached = False \<rparr>"

definition get_kubernetes_pods :: "cluster \<Rightarrow> pods_query \<Rightarrow> KubernetesResponse" where
  "get_kubernetes_pods k q =
     (case fetch_pods k q of
        Inl e \<Rightarrow> error_response e
      | Inr (all_pods, mlr) \<Rightarrow>
          (case paginate q all_pods mlr
                  (sort_pods (sort_by q) (sort_order q) (process_pods (statuses q) all_pods)) of
             Inl e \<Rightarrow> error_response e
           | Inr (paginated_pods, info) \<Rightarrow>
               \<lparr> pods = paginated_pods, pagination = Some info, kr_error = None,
                 kr_max_limit_reached = max_limit_reached info \<rparr>))"

text \<open>
  What the contract asks of the sort step, in its words: \<open>ys\<close> is \<open>xs\<close> sorted by the
  key \<open>f\<close>, non-decreasing or (when \<open>descending\<close>) non-increasing, and stably: the
  records of each key keep the order they have in \<open>xs\<close>. Only the keys that occur need
  to be looked at; \<open>stably_sorted_by_all_keys\<close> below says the same of every key.
\<close>

definition stably_sorted_by :: "('a \<Rightarrow> 'k::linorder) \<Rightarrow> bool \<Rightarrow> 'a list \<Rightarrow> 'a list \<Rightarrow> bool" where
  "stably_sorted_by f descending xs ys =
     ((if descending then sorted (rev (map f ys)) else sorted (map f ys))
      \<and> list_all (\<lambda>k. filter (\<lambda>x. f x = k) ys = filter (\<lambda>x. f x = k) xs) (map f (xs @ ys)))"

section \<open>\<^verbatim>\<open>delete_kubernetes_pod\<close>\<close>

text \<open>
  The handler returns its response; the calls it made on the cluster are recorded beside
  it, in order. An exception that is not an \<^verbatim>\<open>ApiException\<close> reaches the outer handler.
\<close>

record DeletePodRequest =
  dr_name :: string
  dr_namespace :: string

record DeletePodResponse =
  success :: bool
  message :: string
  del_error :: "string option"

datatype api_call = ReadPod string string | DeletePod string string

definition delete_failed :: "string \<Rightarrow> DeletePodResponse" where
  "delete_failed msg =
     \<lparr> success = False, message = ''Failed to delete pod'',
       del_error = Some (''Failed to delete Kubernetes pod: '' @ msg) \<rparr>"

definition delete_kubernetes_pod :: "cluster \<Rightarrow> DeletePodRequest \<Rightarrow> DeletePodResponse \<times> api_call list" where
  "delete_kubernetes_pod k r =
     (let n = dr_name r; ns = dr_namespace r in
      case read_namespaced_pod k n ns of
        Inl (ApiException st reason) \<Rightarrow>
          (if st = 404 then
             (\<lparr> success = False, message = ''Pod not found'',
                del_error = Some (''Pod '' @ n @ '' not found in namespace '' @ ns) \<rparr>,
              [ReadPod n ns])
           else
             (\<lparr> success = False, message = ''Failed to check pod phase'',
                del_error = Some (''Failed to check pod phase: '' @ reason) \<rparr>,
              [ReadPod n ns]))
      | Inl (OtherException msg) \<Rightarrow> (delete_failed msg, [ReadPod n ns])
      | Inr pod \<Rightarrow>
          (let pod_phase = status_phase (status pod) in
           if pod_phase \<in> set [''Running'', ''Succeeded''] then
             (\<lparr> success = False, message = ''Cannot delete pod'',
                del_error = Some (''Cannot delete pod '' @ n @ '' in namespace '' @ ns @
                  ''. Pod is in '' @ [CHR 0x27] @ pod_phase @ [CHR 0x27] @ '' phase. '' @
                  ''Only pods that are not Running or Succeeded can be deleted.'') \<rparr>,
              [ReadPod n ns])
           else
             (case delete_namespaced_pod k n ns of
                Inr u \<Rightarrow>
                  (\<lparr> success = True,
                     message = ''Pod '' @ n @ '' in namespace '' @ ns @ '' deleted successfully'',
                     del_error = None \<rparr>,
                   [ReadPod n ns, DeletePod n ns])
              | Inl (ApiException st reason) \<Rightarrow>
                  (\<lparr> success = False, message = ''Failed to delete pod'',
                     del_error = Some (''Failed to delete pod: '' @ reason) \<rparr>,
                   [ReadPod n ns, DeletePod n ns])
              | Inl (OtherException msg) \<Rightarrow>
                  (delete_failed msg, [ReadPod n ns, DeletePod n ns]))))"

definition is_delete_call :: "api_call \<Rightarrow> bool" where
  "is_delete_call c = (case c of DeletePod n ns \<Rightarrow> True | ReadPod n ns \<Rightarrow> False)"


section \<open>\<^verbatim>\<open>helpers/networking.py\<close> and the HTTP relay\<close>














text \<open>The hosts of the three patterns.\<close>

definition imds_hosts :: "string list" where
  "imds_hosts = [''169.254.169.254'', ''[fd00:ec2::254]'', ''metadata.google.internal'']"


section \<open>Concrete inputs\<close>

definition mk_pod :: "string \<Rightarrow> string \<Rightarrow> string \<Rightarrow> nat \<Rightarrow> bool \<Rightarrow> V1Pod" where
  "mk_pod ns n ph k rdy =
     \<lparr> metadata = \<lparr> meta_name = n, meta_namespace = ns, creation_timestamp = None, labels = None \<rparr>,
       spec = \<lparr> containers = replicate k \<lparr> c_image = ''img'' \<rparr>, spec_node_name = None \<rparr>,
       status = \<lparr> status_phase = ph,
                  conditions = (if rdy then Some [\<lparr> cond_type = ''Ready'', cond_status = ''True'' \<rparr>] else None),
                  container_statuses = None, status_pod_ip = None, status_host_ip = None \<rparr> \<rparr>"

text \<open>A cluster that serves fixed pods, honouring the field selector and the limit.\<close>

definition serve :: "string option \<Rightarrow> int \<Rightarrow> V1Pod list \<Rightarrow> V1Pod list" where
  "serve fs lim ps =
     take (nat lim) (case fs of None \<Rightarrow> ps
        | Some s \<Rightarrow> filter (\<lambda>p. ''status.phase='' @ status_phase (status p) = s) ps)"

definition demo_cluster :: "V1Pod list \<Rightarrow> (string \<times> (exn + V1Pod list)) list \<Rightarrow> cluster" where
  "demo_cluster everything per_ns =
     \<lparr> list_namespaced_pod = (\<lambda>ns fs lim.
          case map_of per_ns ns of
            None \<Rightarrow> Inr []
          | Some (Inl e) \<Rightarrow> Inl e
          | Some (Inr ps) \<Rightarrow> Inr (serve fs lim ps)),
       list_pod_for_all_namespaces = (\<lambda>fs lim. Inr (serve fs lim everything)),
       read_namespaced_pod = (\<lambda>n ns.
          case find (\<lambda>p. meta_name (metadata p) = n \<and> meta_namespace (metadata p) = ns) everything of
            Some p \<Rightarrow> Inr p
          | None \<Rightarrow> Inl (ApiException 404 ''Not Found'')),
       delete_namespaced_pod = (\<lambda>n ns. Inr ()) \<rparr>"

definition numbered_pods :: "string \<Rightarrow> nat \<Rightarrow> V1Pod list" where
  "numbered_pods ns n = map (\<lambda>i. mk_pod ns (''pod-'' @ str_nat i) ''Running'' 1 True) [0..<n]"

definition abc_pods :: "V1Pod list" where
  "abc_pods = [mk_pod ''a'' ''c'' ''Running'' 1 True, mk_pod ''a'' ''a'' ''Running'' 1 True,
               mk_pod ''a'' ''b'' ''Running'' 1 True]"

definition abc_cluster :: cluster where
  "abc_cluster = demo_cluster abc_pods
     [(''a'', Inr abc_pods), (''b'', Inl (ApiException 403 ''Forbidden''))]"

definition twelve_cluster :: cluster where
  "twelve_cluster = demo_cluster (numbered_pods ''default'' 12) []"

definition mk_query :: "int \<Rightarrow> int \<Rightarrow> string \<Rightarrow> string \<Rightarrow> string list \<Rightarrow> string list \<Rightarrow> pods_query" where
  "mk_query p ps sb so nss sts =
     \<lparr> q_page = p, q_page_size = ps, sort_by = sb, sort_order = so, namespaces = nss, statuses = sts \<rparr>"

definition mixed_pods :: "V1Pod list" where
  "mixed_pods = [mk_pod ''d'' ''r1'' ''Running'' 1 True, mk_pod ''d'' ''p1'' ''Pending'' 1 False,
                 mk_pod ''d'' ''f1'' ''Failed'' 1 False, mk_pod ''d'' ''r2'' ''Running'' 1 True]"

definition mixed_cluster :: cluster where
  "mixed_cluster = demo_cluster mixed_pods [(''d'', Inr mixed_pods)]"

definition big_cluster :: cluster where
  "big_cluster = demo_cluster (numbered_pods ''a'' 999 @ numbered_pods ''b'' 1000)
     [(''a'', Inr (numbered_pods ''a'' 999)), (''b'', Inr (numbered_pods ''b'' 1000))]"



definition root_path_rendering :: "string \<Rightarrow> string" where
  "root_path_rendering u =
     (if list_ex (\<lambda>c. c \<in> set ''/?#'') (drop 2 (dropWhile (\<lambda>c. c \<noteq> CHR ''/'') u)) then u
      else u @ ''/'')"


section \<open>The pod record: readiness and health\<close>

lemma ready_loop_zero:
  "ready_loop cs tc 0 = (if list_ex (\<lambda>c. cond_type c = ''Ready'' \<and> cond_status c = ''True'') cs then tc else 0)"
  by (induction cs) auto

lemma ready_count_all_or_nothing:
  "ready_count pod = (if ready_condition_true pod then total_containers pod else 0)"
  by (simp add: ready_count_def ready_condition_true_def pod_conditions_def ready_loop_zero
      split: option.split)

text \<open>
  C3. For every raw pod, the record has \<open>healthy\<close> true exactly when the phase is
  \<^verbatim>\<open>Running\<close> and the ready count equals the number of containers, where the ready count
  is all or nothing: the number of containers when some pod condition has type \<^verbatim>\<open>Ready\<close>
  and status \<^verbatim>\<open>True\<close>, and 0 otherwise; the \<open>ready\<close> string shows that count over the
  number of containers.
\<close>

theorem healthy_iff_running_and_all_ready:
  "healthy (make_pod_info pod) =
     (status_phase (status pod) = ''Running'' \<and> ready_count pod = total_containers pod)
   \<and> ready_count pod = (if ready_condition_true pod then total_containers pod else 0)
   \<and> ready (make_pod_info pod) = str_nat (ready_count pod) @ ''/'' @ str_nat (total_containers pod)"
  using ready_count_all_or_nothing [of pod] by (auto simp: make_pod_info_def)

theorem healthy_iff_running_and_all_ready_witness:
  "healthy (make_pod_info (mk_pod ''ns'' ''a'' ''Running'' 2 True))
   \<and> ready (make_pod_info (mk_pod ''ns'' ''a'' ''Running'' 2 True)) = ''2/2''
   \<and> \<not> healthy (make_pod_info (mk_pod ''ns'' ''a'' ''Running'' 2 False))
   \<and> ready (make_pod_info (mk_pod ''ns'' ''a'' ''Running'' 2 False)) = ''0/2''
   \<and> \<not> healthy (make_pod_info (mk_pod ''ns'' ''a'' ''Pending'' 2 True))"
  using healthy_iff_running_and_all_ready [of "mk_pod ''ns'' ''a'' ''Running'' 2 True"]
    healthy_iff_running_and_all_ready [of "mk_pod ''ns'' ''a'' ''Running'' 2 False"]
    healthy_iff_running_and_all_ready [of "mk_pod ''ns'' ''a'' ''Pending'' 2 True"]
  by (simp add: mk_pod_def ready_condition_true_def pod_conditions_def total_containers_def
      digit_char_def)

text \<open>
  C10. For every raw pod that declares no container, the record reports \<open>ready\<close> as
  \<^verbatim>\<open>0/0\<close> and is healthy exactly when the phase is \<^verbatim>\<open>Running\<close>, whatever its conditions
  are (also when it has none).
\<close>

theorem zero_containers_healthy_iff_running:
  assumes "containers (spec pod) = []"
  shows "ready (make_pod_info pod) = ''0/0''
    \<and> healthy (make_pod_info pod) = (status_phase (status pod) = ''Running'')"
proof -
  have tc: "total_containers pod = 0"
    using assms by (simp add: total_containers_def)
  have rc: "ready_count pod = 0"
    using ready_count_all_or_nothing [of pod] tc by simp
  show ?thesis
    by (simp add: make_pod_info_def tc rc digit_char_def)
qed

theorem zero_containers_healthy_iff_running_witness:
  "containers (spec (mk_pod ''ns'' ''a'' ''Running'' 0 False)) = []
   \<and> conditions (status (mk_pod ''ns'' ''a'' ''Running'' 0 False)) = None
   \<and> ready (make_pod_info (mk_pod ''ns'' ''a'' ''Running'' 0 False)) = ''0/0''
   \<and> healthy (make_pod_info (mk_pod ''ns'' ''a'' ''Running'' 0 False))"
proof -
  have h: "containers (spec (mk_pod ''ns'' ''a'' ''Running'' 0 False)) = []"
    by (simp add: mk_pod_def)
  show ?thesis
    using h zero_containers_healthy_iff_running [OF h] by (simp add: mk_pod_def)
qed

section \<open>The pods request: fetch, filter, sort, paginate\<close>

lemma process_pods_eq:
  "process_pods sts xs =
     map make_pod_info (filter (\<lambda>pod. sts = [] \<or> status_phase (status pod) \<in> set sts) xs)"
  by (induction xs) auto

lemma set_py_sort: "set (py_sort f r xs) = set xs"
  by (simp add: py_sort_def)

lemma length_py_sort: "length (py_sort f r xs) = length xs"
  by (simp add: py_sort_def)

lemma set_sort_pods: "set (sort_pods sb so xs) = set xs"
  by (simp add: sort_pods_def Let_def set_py_sort)

lemma length_sort_pods: "length (sort_pods sb so xs) = length xs"
  by (simp add: sort_pods_def Let_def length_py_sort)

lemma py_slice_window:
  assumes "0 \<le> i" and "0 \<le> n"
  shows "py_slice xs i (i + n) = take (nat n) (drop (nat i) xs)"
proof -
  have a: "clamp_index i (length xs) = min (nat i) (length xs)"
    using assms by (simp add: clamp_index_def)
  have b: "clamp_index (i + n) (length xs) = min (nat i + nat n) (length xs)"
    using assms by (simp add: clamp_index_def nat_add_distrib)
  show ?thesis
    unfolding py_slice_def Let_def a b
    by (cases "nat i \<le> length xs") (auto simp: min_def)
qed

lemma set_py_slice: "set (py_slice xs i j) \<subseteq> set xs"
  unfolding py_slice_def Let_def
  by (meson set_take_subset set_drop_subset subset_trans)

lemma fetch_namespaces_flag:
  "fetch_namespaces k fs lim nss acc = (ps, True) \<Longrightarrow> 1000 \<le> length ps"
  by (induction nss arbitrary: acc) (auto split: sum.splits if_splits)

lemma fetch_pods_flag:
  "fetch_pods k q = Inr (ps, True) \<Longrightarrow> 1000 \<le> length ps"
  by (auto simp: fetch_pods_def dest: fetch_namespaces_flag split: if_splits sum.splits)

lemma get_kubernetes_pods_success:
  assumes "q_page_size q \<noteq> 0" and "fetch_pods k q = Inr (all_pods, mlr)"
  shows "get_kubernetes_pods k q =
      (let ps = sort_pods (sort_by q) (sort_order q) (process_pods (statuses q) all_pods);
           start_idx = (q_page q - 1) * q_page_size q;
           end_idx = start_idx + q_page_size q;
           total = snd (reported_total q all_pods mlr ps);
           mlr' = fst (reported_total q all_pods mlr ps)
       in \<lparr> pods = py_slice ps start_idx end_idx,
            pagination = Some \<lparr> page = q_page q, page_size = q_page_size q, total_items = total,
               total_pages = (if total > 0 then (total + q_page_size q - 1) div q_page_size q else 1),
               has_next = (end_idx < total), has_previous = (q_page q > 1),
               max_limit_reached = mlr' \<rparr>,
            kr_error = None, kr_max_limit_reached = mlr' \<rparr>)"
  using assms
  by (simp add: get_kubernetes_pods_def paginate_def Let_def split: prod.split)

lemma mk_query_sel:
  "q_page (mk_query p ps sb so nss sts) = p"
  "q_page_size (mk_query p ps sb so nss sts) = ps"
  "sort_by (mk_query p ps sb so nss sts) = sb"
  "sort_order (mk_query p ps sb so nss sts) = so"
  "namespaces (mk_query p ps sb so nss sts) = nss"
  "statuses (mk_query p ps sb so nss sts) = sts"
  by (simp_all add: mk_query_def)

lemma make_pod_info_mk_pod:
  "name (make_pod_info (mk_pod ns n ph c r)) = n"
  "namespace (make_pod_info (mk_pod ns n ph c r)) = ns"
  "phase (make_pod_info (mk_pod ns n ph c r)) = ph"
  by (simp_all add: make_pod_info_def mk_pod_def)

lemma abc_sorted:
  "sort_pods ''name'' ''asc'' (process_pods [] abc_pods) =
    map make_pod_info [mk_pod ''a'' ''a'' ''Running'' 1 True, mk_pod ''a'' ''b'' ''Running'' 1 True,
      mk_pod ''a'' ''c'' ''Running'' 1 True]"
  by (simp add: sort_pods_def py_sort_def abc_pods_def make_pod_info_def mk_pod_def lower_def
                lower_char_def Let_def)

lemma length_abc_pods: "length abc_pods = 3"
  by (simp add: abc_pods_def)

lemma fetch_abc_all:
  "fetch_pods abc_cluster (mk_query 1 2 sb so [] []) = Inr (abc_pods, False)"
  by (simp add: fetch_pods_def abc_cluster_def demo_cluster_def mk_query_def serve_def
      field_selector_def abc_pods_def)

lemma length_numbered_pods: "length (numbered_pods ns n) = n"
  by (simp add: numbered_pods_def)

lemma fetch_twelve:
  "fetch_pods twelve_cluster (mk_query p 1 sb so [] []) =
     Inr (take 10 (numbered_pods ''default'' 12), False)"
  by (simp add: fetch_pods_def twelve_cluster_def demo_cluster_def mk_query_def serve_def
      field_selector_def numbered_pods_def)

text \<open>
  C1. For a pods request whose fetch stage returned \<open>all_pods\<close> with the flag
  \<open>flagged\<close>: with \<open>maxFetchLimit = min (page_size * 10) 1000\<close>, the reported
  \<open>total_items\<close> is 1000 when at least \<open>maxFetchLimit\<close> raw pods were fetched (and then
  \<open>max_limit_reached\<close> is true in the pagination and in the response), else the maximum of
  1000 and the filtered count when the fetch stage had set the flag, else the filtered count.
\<close>

theorem total_items_truncation_policy:
  assumes "valid_query q" and "fetch_pods k q = Inr (all_pods, flagged)"
  shows "map_option total_items (pagination (get_kubernetes_pods k q)) =
       Some (if min (q_page_size q * 10) 1000 \<le> int (length all_pods) then 1000
             else if flagged then max 1000 (int (length (process_pods (statuses q) all_pods)))
             else int (length (process_pods (statuses q) all_pods)))
     \<and> (min (q_page_size q * 10) 1000 \<le> int (length all_pods) \<longrightarrow>
          map_option max_limit_reached (pagination (get_kubernetes_pods k q)) = Some True
          \<and> kr_max_limit_reached (get_kubernetes_pods k q))"
proof -
  have ps: "q_page_size q \<noteq> 0"
    using assms(1) by (simp add: valid_query_def)
  show ?thesis
    by (simp add: get_kubernetes_pods_success [OF ps assms(2)] Let_def reported_total_def
        max_fetch_limit_def length_sort_pods)
qed

theorem total_items_truncation_policy_witness:
  "valid_query (mk_query 1 1 ''name'' ''asc'' [] [])
   \<and> fetch_pods twelve_cluster (mk_query 1 1 ''name'' ''asc'' [] []) =
       Inr (take 10 (numbered_pods ''default'' 12), False)
   \<and> map_option total_items (pagination (get_kubernetes_pods twelve_cluster
        (mk_query 1 1 ''name'' ''asc'' [] []))) = Some 1000
   \<and> kr_max_limit_reached (get_kubernetes_pods twelve_cluster (mk_query 1 1 ''name'' ''asc'' [] []))
   \<and> valid_query (mk_query 1 2 ''name'' ''asc'' [] [])
   \<and> fetch_pods abc_cluster (mk_query 1 2 ''name'' ''asc'' [] []) = Inr (abc_pods, False)
   \<and> map_option total_items (pagination (get_kubernetes_pods abc_cluster
        (mk_query 1 2 ''name'' ''asc'' [] []))) = Some 3"
proof -
  have v: "valid_query (mk_query 1 1 ''name'' ''asc'' [] [])"
    by (simp add: valid_query_def mk_query_sel)
  note f = fetch_twelve [of 1 "''name''" "''asc''"]
  have a: "map_option total_items (pagination (get_kubernetes_pods twelve_cluster
        (mk_query 1 1 ''name'' ''asc'' [] []))) = Some 1000
     \<and> kr_max_limit_reached (get_kubernetes_pods twelve_cluster (mk_query 1 1 ''name'' ''asc'' [] []))"
    using total_items_truncation_policy [OF v f]
    by (simp add: length_numbered_pods mk_query_sel)
  have w: "valid_query (mk_query 1 2 ''name'' ''asc'' [] [])"
    by (simp add: valid_query_def mk_query_sel)
  note g = fetch_abc_all [of "''name''" "''asc''"]
  have b: "map_option total_items (pagination (get_kubernetes_pods abc_cluster
        (mk_query 1 2 ''name'' ''asc'' [] []))) = Some 3"
    using total_items_truncation_policy [OF w g]
    by (simp add: mk_query_sel process_pods_eq abc_pods_def)
  show ?thesis
    using v f a w g b by blast
qed

text \<open>
  C2 (as the code has it). For a pods request whose fetch stage succeeded, with
  \<open>start = (page - 1) * page_size\<close> and \<open>end = start + page_size\<close>: the returned
  records are the slice from \<open>start\<close> to \<open>end\<close> of the filtered, sorted records (that
  is \<open>page_size\<close> records after dropping \<open>start\<close>); \<open>has_next\<close> is \<open>end < total_items\<close> for
  the reported \<open>total_items\<close>, the one after the truncation adjustment; \<open>has_previous\<close>
  is \<open>page > 1\<close>.
\<close>

theorem page_window:
  assumes "valid_query q" and "fetch_pods k q = Inr (all_pods, flagged)"
  shows "pods (get_kubernetes_pods k q) =
       py_slice (sort_pods (sort_by q) (sort_order q) (process_pods (statuses q) all_pods))
         ((q_page q - 1) * q_page_size q) ((q_page q - 1) * q_page_size q + q_page_size q)
     \<and> pods (get_kubernetes_pods k q) =
       take (nat (q_page_size q)) (drop (nat ((q_page q - 1) * q_page_size q))
         (sort_pods (sort_by q) (sort_order q) (process_pods (statuses q) all_pods)))
     \<and> map_option has_next (pagination (get_kubernetes_pods k q)) =
         map_option (\<lambda>info. (q_page q - 1) * q_page_size q + q_page_size q < total_items info)
           (pagination (get_kubernetes_pods k q))
     \<and> map_option has_previous (pagination (get_kubernetes_pods k q)) = Some (q_page q > 1)"
proof -
  have ps: "q_page_size q \<noteq> 0" and a: "0 \<le> (q_page q - 1) * q_page_size q" and b: "0 \<le> q_page_size q"
    using assms(1) by (simp_all add: valid_query_def)
  show ?thesis
    by (simp add: get_kubernetes_pods_success [OF ps assms(2)] Let_def py_slice_window [OF a b])
qed

theorem page_window_witness:
  "valid_query (mk_query 1 2 ''name'' ''asc'' [] [])
   \<and> fetch_pods abc_cluster (mk_query 1 2 ''name'' ''asc'' [] []) = Inr (abc_pods, False)
   \<and> map name (pods (get_kubernetes_pods abc_cluster (mk_query 1 2 ''name'' ''asc'' [] []))) = [''a'', ''b'']
   \<and> map_option has_previous (pagination (get_kubernetes_pods abc_cluster (mk_query 1 2 ''name'' ''asc'' [] []))) = Some False
   \<and> pagination (get_kubernetes_pods abc_cluster (mk_query 1 2 ''name'' ''asc'' [] [])) =
        Some \<lparr> page = 1, page_size = 2, total_items = 3, total_pages = 2,
               has_next = True, has_previous = False, max_limit_reached = False \<rparr>"
proof -
  have v: "valid_query (mk_query 1 2 ''name'' ''asc'' [] [])"
    by (simp add: valid_query_def mk_query_def)
  note f = fetch_abc_all [of "''name''" "''asc''"]
  have s: "sort_pods (sort_by (mk_query 1 2 ''name'' ''asc'' [] []))
      (sort_order (mk_query 1 2 ''name'' ''asc'' [] []))
      (process_pods (statuses (mk_query 1 2 ''name'' ''asc'' [] [])) abc_pods) =
    map make_pod_info [mk_pod ''a'' ''a'' ''Running'' 1 True, mk_pod ''a'' ''b'' ''Running'' 1 True,
      mk_pod ''a'' ''c'' ''Running'' 1 True]"
    using abc_sorted by (simp add: mk_query_sel)
  note pw = page_window [OF v f]
  have p: "map name (pods (get_kubernetes_pods abc_cluster (mk_query 1 2 ''name'' ''asc'' [] []))) = [''a'', ''b'']"
    unfolding pw [THEN conjunct2, THEN conjunct1] s
    by (simp add: mk_query_sel make_pod_info_mk_pod)
  have h: "map_option has_previous (pagination (get_kubernetes_pods abc_cluster
      (mk_query 1 2 ''name'' ''asc'' [] []))) = Some False"
    unfolding pw [THEN conjunct2, THEN conjunct2, THEN conjunct2]
    by (simp add: mk_query_sel)
  have nz: "q_page_size (mk_query 1 2 ''name'' ''asc'' [] []) \<noteq> 0"
    by (simp add: mk_query_sel)
  have i: "pagination (get_kubernetes_pods abc_cluster (mk_query 1 2 ''name'' ''asc'' [] [])) =
        Some \<lparr> page = 1, page_size = 2, total_items = 3, total_pages = 2,
               has_next = True, has_previous = False, max_limit_reached = False \<rparr>"
    by (simp add: get_kubernetes_pods_success [OF nz f] Let_def reported_total_def
        max_fetch_limit_def mk_query_sel abc_sorted length_abc_pods)
  show ?thesis
    using v f p h i by blast
qed

text \<open>
  With page size 1 the cluster-wide fetch asks for 10 pods; on page 10 of 10 fetched pods
  the end index 10 is not below the filtered count 10, yet \<open>has_next\<close> is true, since
  the reported total is the sentinel 1000.
\<close>

theorem has_next_uses_filtered_count_counterexample:
  "map_option has_next (pagination (get_kubernetes_pods twelve_cluster
      (mk_query 10 1 ''name'' ''asc'' [] []))) = Some True
   \<and> \<not> ((10 - 1) * 1 + 1 < int (length (process_pods []
            (take 10 (numbered_pods ''default'' 12)))))
   \<and> fetch_pods twelve_cluster (mk_query 10 1 ''name'' ''asc'' [] []) =
       Inr (take 10 (numbered_pods ''default'' 12), False)"
proof -
  have ps: "q_page_size (mk_query 10 1 ''name'' ''asc'' [] []) \<noteq> 0"
    by (simp add: mk_query_def)
  note f = fetch_twelve [of 10 "''name''" "''asc''"]
  show ?thesis
    by (simp add: get_kubernetes_pods_success [OF ps f] f Let_def reported_total_def
        max_fetch_limit_def length_numbered_pods process_pods_eq mk_query_sel)
qed

subsection \<open>Namespace fan-out\<close>

lemma fetch_namespaces_skip:
  assumes "list_namespaced_pod k ns fs lim = Inl e"
  shows "fetch_namespaces k fs lim (pre @ ns # post) acc = fetch_namespaces k fs lim (pre @ post) acc"
  using assms by (induction pre arbitrary: acc) (auto split: sum.splits)

lemma get_kubernetes_pods_namespaces_cong:
  assumes "namespaces q \<noteq> []" and "nss \<noteq> []"
    and "fetch_namespaces k (field_selector (statuses q)) (q_page_size q) (namespaces q) [] =
         fetch_namespaces k (field_selector (statuses q)) (q_page_size q) nss []"
  shows "get_kubernetes_pods k q = get_kubernetes_pods k (q\<lparr>namespaces := nss\<rparr>)"
proof -
  have fp: "fetch_pods k (q\<lparr>namespaces := nss\<rparr>) = fetch_pods k q"
    using assms by (simp add: fetch_pods_def)
  have pg: "paginate (q\<lparr>namespaces := nss\<rparr>) a m p = paginate q a m p" for a m p
  proof -
    have rt: "reported_total (q\<lparr>namespaces := nss\<rparr>) a m p = reported_total q a m p"
      by (simp add: reported_total_def max_fetch_limit_def)
    show ?thesis
      by (simp add: paginate_def rt Let_def split: prod.split)
  qed
  show ?thesis
    by (simp add: get_kubernetes_pods_def fp pg split: sum.split prod.split)
qed

lemma fetch_abc_ab:
  "fetch_pods abc_cluster (mk_query 1 50 sb so [''a'', ''b''] []) = Inr (abc_pods, False)"
  by (simp add: fetch_pods_def abc_cluster_def demo_cluster_def mk_query_def serve_def
      field_selector_def abc_pods_def)

lemma abc_b_fails:
  "list_namespaced_pod abc_cluster ''b'' fs lim = Inl (ApiException 403 ''Forbidden'')"
  by (simp add: abc_cluster_def demo_cluster_def)

lemma fetch_namespaces_under_cap:
  assumes "length (acc @ concat (map (\<lambda>n. case list_namespaced_pod k n fs lim of
              Inl e \<Rightarrow> [] | Inr items \<Rightarrow> items) nss)) < 1000"
  shows "fetch_namespaces k fs lim nss acc =
     (acc @ concat (map (\<lambda>n. case list_namespaced_pod k n fs lim of
              Inl e \<Rightarrow> [] | Inr items \<Rightarrow> items) nss), False)"
  using assms
proof (induction nss arbitrary: acc)
  case Nil
  then show ?case by simp
next
  case (Cons n nss)
  show ?case
  proof (cases "list_namespaced_pod k n fs lim")
    case (Inl e)
    then show ?thesis
      using Cons.IH [of acc] Cons.prems by simp
  next
    case (Inr items)
    then show ?thesis
      using Cons.IH [of "acc @ items"] Cons.prems by simp
  qed
qed

lemma abc_a_items:
  "list_namespaced_pod abc_cluster ''a'' None 50 = Inr abc_pods"
  by (simp add: abc_cluster_def demo_cluster_def serve_def abc_pods_def)

text \<open>
  C5. For a pods request that names namespaces, when the list call for one of them raises,
  the exception does not leave the fetch stage: the fetch returns what the loop over the
  other namespaces, in the same order, returns (the failing one contributes no pod), the
  response carries pagination and no error, and when other namespaces are named the
  response is the one of the request naming only them. The records of the response are
  the page window of the sorted records of the pods accumulated from the other namespaces;
  as long as fewer than 1000 pods are accumulated these are the items of the other
  namespaces' calls, in order, a raising call counting for none.
\<close>

theorem failed_namespace_is_skipped:
  assumes "valid_query q"
    and "namespaces q = pre @ ns # post"
    and "list_namespaced_pod k ns (field_selector (statuses q)) (q_page_size q) = Inl e"
  shows "fetch_pods k q =
       Inr (fetch_namespaces k (field_selector (statuses q)) (q_page_size q) (pre @ post) [])
     \<and> kr_error (get_kubernetes_pods k q) = None
     \<and> pagination (get_kubernetes_pods k q) \<noteq> None
     \<and> (pre @ post \<noteq> [] \<longrightarrow>
          get_kubernetes_pods k q = get_kubernetes_pods k (q\<lparr>namespaces := pre @ post\<rparr>))
     \<and> pods (get_kubernetes_pods k q) =
          py_slice
            (sort_pods (sort_by q) (sort_order q)
              (process_pods (statuses q)
                (fst (fetch_namespaces k (field_selector (statuses q)) (q_page_size q) (pre @ post) []))))
            ((q_page q - 1) * q_page_size q) ((q_page q - 1) * q_page_size q + q_page_size q)
     \<and> (length (concat (map (\<lambda>n. case list_namespaced_pod k n (field_selector (statuses q))
                                      (q_page_size q) of Inl e \<Rightarrow> [] | Inr items \<Rightarrow> items)
                   (pre @ post))) < 1000 \<longrightarrow>
          fetch_pods k q =
            Inr (concat (map (\<lambda>n. case list_namespaced_pod k n (field_selector (statuses q))
                                      (q_page_size q) of Inl e \<Rightarrow> [] | Inr items \<Rightarrow> items)
                   (pre @ post)), False))"
proof -
  have ps: "q_page_size q \<noteq> 0"
    using assms(1) by (simp add: valid_query_def)
  have ne: "namespaces q \<noteq> []"
    using assms(2) by simp
  have sk: "fetch_namespaces k (field_selector (statuses q)) (q_page_size q) (namespaces q) [] =
      fetch_namespaces k (field_selector (statuses q)) (q_page_size q) (pre @ post) []"
    unfolding assms(2) by (rule fetch_namespaces_skip [OF assms(3)])
  have f: "fetch_pods k q =
       Inr (fetch_namespaces k (field_selector (statuses q)) (q_page_size q) (pre @ post) [])"
    using ne sk by (simp add: fetch_pods_def)
  obtain all_pods mlr where
    r: "fetch_namespaces k (field_selector (statuses q)) (q_page_size q) (pre @ post) [] = (all_pods, mlr)"
    by (cases "fetch_namespaces k (field_selector (statuses q)) (q_page_size q) (pre @ post) []")
  have f': "fetch_pods k q = Inr (all_pods, mlr)"
    using f r by simp
  have ok: "kr_error (get_kubernetes_pods k q) = None \<and> pagination (get_kubernetes_pods k q) \<noteq> None"
    by (simp add: get_kubernetes_pods_success [OF ps f'] Let_def)
  have cong: "pre @ post \<noteq> [] \<longrightarrow>
      get_kubernetes_pods k q = get_kubernetes_pods k (q\<lparr>namespaces := pre @ post\<rparr>)"
    using get_kubernetes_pods_namespaces_cong [OF ne _ sk] by blast
  have pg: "pods (get_kubernetes_pods k q) =
          py_slice
            (sort_pods (sort_by q) (sort_order q)
              (process_pods (statuses q)
                (fst (fetch_namespaces k (field_selector (statuses q)) (q_page_size q) (pre @ post) []))))
            ((q_page q - 1) * q_page_size q) ((q_page q - 1) * q_page_size q + q_page_size q)"
    by (simp add: get_kubernetes_pods_success [OF ps f'] Let_def r)
  have cap: "fetch_pods k q =
            Inr (concat (map (\<lambda>n. case list_namespaced_pod k n (field_selector (statuses q))
                                      (q_page_size q) of Inl e \<Rightarrow> [] | Inr items \<Rightarrow> items)
                   (pre @ post)), False)"
    if "length (concat (map (\<lambda>n. case list_namespaced_pod k n (field_selector (statuses q))
                                      (q_page_size q) of Inl e \<Rightarrow> [] | Inr items \<Rightarrow> items)
                   (pre @ post))) < 1000"
    using fetch_namespaces_under_cap [of "[]" k "field_selector (statuses q)" "q_page_size q" "pre @ post"]
      that f by simp
  show ?thesis
    using f ok cong pg cap by blast
qed

theorem failed_namespace_is_skipped_witness:
  "valid_query (mk_query 1 50 ''name'' ''asc'' [''a'', ''b''] [])
   \<and> list_namespaced_pod abc_cluster ''b'' None 50 = Inl (ApiException 403 ''Forbidden'')
   \<and> list_namespaced_pod abc_cluster ''a'' None 50 = Inr abc_pods
   \<and> fetch_pods abc_cluster (mk_query 1 50 ''name'' ''asc'' [''a'', ''b''] []) = Inr (abc_pods, False)
   \<and> kr_error (get_kubernetes_pods abc_cluster (mk_query 1 50 ''name'' ''asc'' [''a'', ''b''] [])) = None
   \<and> map name (pods (get_kubernetes_pods abc_cluster (mk_query 1 50 ''name'' ''asc'' [''a'', ''b''] []))) =
        [''a'', ''b'', ''c'']
   \<and> map namespace (pods (get_kubernetes_pods abc_cluster (mk_query 1 50 ''name'' ''asc'' [''a'', ''b''] []))) =
        [''a'', ''a'', ''a'']
   \<and> get_kubernetes_pods abc_cluster (mk_query 1 50 ''name'' ''asc'' [''a'', ''b''] []) =
     get_kubernetes_pods abc_cluster (mk_query 1 50 ''name'' ''asc'' [''a''] [])"
proof -
  let ?q = "mk_query 1 50 ''name'' ''asc'' [''a'', ''b''] []"
  have v: "valid_query ?q"
    by (simp add: valid_query_def mk_query_sel)
  have n: "namespaces ?q = [''a''] @ ''b'' # []"
    by (simp add: mk_query_sel)
  have e: "list_namespaced_pod abc_cluster ''b'' (field_selector (statuses ?q)) (q_page_size ?q) =
      Inl (ApiException 403 ''Forbidden'')"
    by (rule abc_b_fails)
  have u: "?q\<lparr>namespaces := [''a''] @ []\<rparr> = mk_query 1 50 ''name'' ''asc'' [''a''] []"
    by (simp add: mk_query_def)
  note t = failed_namespace_is_skipped [OF v n e]
  have c2: "kr_error (get_kubernetes_pods abc_cluster ?q) = None"
    using t by blast
  have c4: "get_kubernetes_pods abc_cluster ?q =
      get_kubernetes_pods abc_cluster (mk_query 1 50 ''name'' ''asc'' [''a''] [])"
    using t [THEN conjunct2, THEN conjunct2, THEN conjunct2, THEN conjunct1] unfolding u by simp
  have fa: "fetch_namespaces abc_cluster (field_selector (statuses ?q)) (q_page_size ?q) ([''a''] @ []) [] =
      (abc_pods, False)"
    by (simp add: mk_query_sel field_selector_def abc_a_items length_abc_pods)
  have c5: "pods (get_kubernetes_pods abc_cluster ?q) =
      py_slice (sort_pods ''name'' ''asc'' (process_pods [] abc_pods)) 0 50"
    using t [THEN conjunct2, THEN conjunct2, THEN conjunct2, THEN conjunct2, THEN conjunct1]
    unfolding fa by (simp add: mk_query_sel)
  have c6: "map name (pods (get_kubernetes_pods abc_cluster ?q)) = [''a'', ''b'', ''c'']"
    unfolding c5 abc_sorted by (simp add: py_slice_def clamp_index_def make_pod_info_mk_pod)
  have c7: "map namespace (pods (get_kubernetes_pods abc_cluster ?q)) = [''a'', ''a'', ''a'']"
    unfolding c5 abc_sorted by (simp add: py_slice_def clamp_index_def make_pod_info_mk_pod)
  show ?thesis
    using v abc_b_fails [of None 50] abc_a_items fetch_abc_ab [of "''name''" "''asc''"] c2 c4 c6 c7
    by blast
qed

subsection \<open>Status filter\<close>

lemma pods_of_response:
  "set (pods (get_kubernetes_pods k q)) \<subseteq>
     (case fetch_pods k q of Inl e \<Rightarrow> {} | Inr (a, m) \<Rightarrow> set (process_pods (statuses q) a))"
proof (cases "fetch_pods k q")
  case (Inl e)
  then show ?thesis
    by (simp add: get_kubernetes_pods_def error_response_def)
next
  case (Inr r)
  obtain a m where r: "r = (a, m)"
    by (cases r)
  have "set (py_slice (sort_pods (sort_by q) (sort_order q) (process_pods (statuses q) a)) i j)
      \<subseteq> set (process_pods (statuses q) a)" for i j
    using set_py_slice [of "sort_pods (sort_by q) (sort_order q) (process_pods (statuses q) a)" i j]
    by (simp add: set_sort_pods)
  then show ?thesis
    using Inr r
    by (auto simp: get_kubernetes_pods_def paginate_def Let_def error_response_def
        split: prod.splits if_splits)
qed

lemma phase_make_pod_info: "phase (make_pod_info pod) = status_phase (status pod)"
  by (simp add: make_pod_info_def)

lemma fetch_mixed:
  "fetch_pods mixed_cluster (mk_query 1 50 sb so [] [''Running'', ''Failed'']) = Inr (mixed_pods, False)"
  by (simp add: fetch_pods_def mixed_cluster_def demo_cluster_def mk_query_def serve_def
      field_selector_def mixed_pods_def)

lemma mixed_processed:
  "process_pods [''Running'', ''Failed''] mixed_pods =
     map make_pod_info [mk_pod ''d'' ''r1'' ''Running'' 1 True, mk_pod ''d'' ''f1'' ''Failed'' 1 False,
        mk_pod ''d'' ''r2'' ''Running'' 1 True]"
  by (simp add: mixed_pods_def mk_pod_def)

text \<open>
  C8. For a pods request whose status filter has two or more entries, every record of the
  response has a phase among those statuses, and the records that enter the sort step are
  the records of the fetched pods whose phase is among the statuses, in fetch order.
\<close>

theorem multi_status_filter:
  assumes "2 \<le> length (statuses q)"
  shows "(\<forall>r \<in> set (pods (get_kubernetes_pods k q)). phase r \<in> set (statuses q))
     \<and> process_pods (statuses q) all_pods =
         map make_pod_info (filter (\<lambda>pod. status_phase (status pod) \<in> set (statuses q)) all_pods)"
proof -
  have ne: "statuses q \<noteq> []"
    using assms by auto
  have pp: "process_pods (statuses q) xs =
      map make_pod_info (filter (\<lambda>pod. status_phase (status pod) \<in> set (statuses q)) xs)" for xs
    by (simp add: process_pods_eq ne)
  have ph: "phase r \<in> set (statuses q)" if "r \<in> set (process_pods (statuses q) xs)" for r xs
  proof -
    from that obtain pod where "r = make_pod_info pod" and "status_phase (status pod) \<in> set (statuses q)"
      unfolding pp by auto
    then show ?thesis
      by (simp add: phase_make_pod_info)
  qed
  have "phase r \<in> set (statuses q)" if m: "r \<in> set (pods (get_kubernetes_pods k q))" for r
  proof (cases "fetch_pods k q")
    case (Inl e)
    then show ?thesis
      using m pods_of_response [of k q] by simp
  next
    case (Inr p)
    then have "r \<in> set (process_pods (statuses q) (fst p))"
      using m pods_of_response [of k q] by (auto simp: case_prod_beta)
    then show ?thesis
      by (rule ph)
  qed
  then show ?thesis
    using pp by blast
qed

theorem multi_status_filter_witness:
  "2 \<le> length (statuses (mk_query 1 50 ''name'' ''asc'' [] [''Running'', ''Failed'']))
   \<and> map name (process_pods [''Running'', ''Failed''] mixed_pods) = [''r1'', ''f1'', ''r2'']
   \<and> map name (pods (get_kubernetes_pods mixed_cluster
        (mk_query 1 50 ''name'' ''asc'' [] [''Running'', ''Failed'']))) = [''f1'', ''r1'', ''r2'']
   \<and> list_all (\<lambda>r. phase r \<in> {''Running'', ''Failed''})
        (pods (get_kubernetes_pods mixed_cluster
          (mk_query 1 50 ''name'' ''asc'' [] [''Running'', ''Failed''])))"
proof -
  let ?q = "mk_query 1 50 ''name'' ''asc'' [] [''Running'', ''Failed'']"
  have h: "2 \<le> length (statuses ?q)"
    by (simp add: mk_query_sel)
  have ps: "q_page_size ?q \<noteq> 0"
    by (simp add: mk_query_sel)
  note t = multi_status_filter [OF h, of mixed_cluster mixed_pods]
  have a: "map name (process_pods [''Running'', ''Failed''] mixed_pods) = [''r1'', ''f1'', ''r2'']"
    unfolding mixed_processed by (simp add: make_pod_info_mk_pod)
  have s: "sort_pods ''name'' ''asc'' (process_pods [''Running'', ''Failed''] mixed_pods) =
     map make_pod_info [mk_pod ''d'' ''f1'' ''Failed'' 1 False, mk_pod ''d'' ''r1'' ''Running'' 1 True,
        mk_pod ''d'' ''r2'' ''Running'' 1 True]"
    unfolding mixed_processed
    by (simp add: sort_pods_def py_sort_def make_pod_info_def mk_pod_def lower_def lower_char_def)
  have b: "map name (pods (get_kubernetes_pods mixed_cluster ?q)) = [''f1'', ''r1'', ''r2'']"
    by (simp add: get_kubernetes_pods_success [OF ps fetch_mixed] Let_def mk_query_sel s
        py_slice_def clamp_index_def make_pod_info_mk_pod)
  have "\<forall>r \<in> set (pods (get_kubernetes_pods mixed_cluster ?q)). phase r \<in> {''Running'', ''Failed''}"
    using t by (simp add: mk_query_sel)
  then have d: "list_all (\<lambda>r. phase r \<in> {''Running'', ''Failed''})
      (pods (get_kubernetes_pods mixed_cluster ?q))"
    by (simp add: list_all_iff)
  show ?thesis
    using h a b d by blast
qed

subsection \<open>Pages beyond the last\<close>

lemma ceil_div_covers:
  fixes t s :: int
  assumes "0 < s"
  shows "t \<le> ((t + s - 1) div s) * s"
proof -
  have "(t + s - 1) mod s \<le> s - 1"
    using assms pos_mod_bound [of s "t + s - 1"] by simp
  moreover have "((t + s - 1) div s) * s = (t + s - 1) - (t + s - 1) mod s"
    by (simp add: algebra_simps minus_mod_eq_mult_div)
  ultimately show ?thesis
    by simp
qed

lemma total_le_pages:
  fixes t s :: int
  assumes "0 < s"
  shows "t \<le> (if t > 0 then (t + s - 1) div s else 1) * s"
  using ceil_div_covers [OF assms, of t] assms by auto

lemma length_process_pods_none: "length (process_pods [] xs) = length xs"
  by (simp add: process_pods_eq)

lemma length_py_slice_window:
  assumes "0 \<le> i" and "0 \<le> n"
  shows "length (py_slice xs i (i + n)) = min (nat n) (length xs - nat i)"
  by (simp add: py_slice_window [OF assms] min.commute)

lemma fetch_big:
  "fetch_pods big_cluster (mk_query p 1000 sb so [''a'', ''b''] []) =
     Inr (numbered_pods ''a'' 999 @ numbered_pods ''b'' 1000, True)"
  by (simp add: fetch_pods_def big_cluster_def demo_cluster_def mk_query_sel serve_def
      field_selector_def length_numbered_pods)

lemma page_empty_iff:
  assumes "valid_query q" and "fetch_pods k q = Inr (all_pods, flagged)"
  shows "(pods (get_kubernetes_pods k q) = []) =
     (int (length (process_pods (statuses q) all_pods)) \<le> (q_page q - 1) * q_page_size q)"
proof -
  have nz: "q_page_size q \<noteq> 0" and a: "0 \<le> (q_page q - 1) * q_page_size q"
    and b: "0 \<le> q_page_size q" and sz: "0 < nat (q_page_size q)"
    using assms(1) by (simp_all add: valid_query_def)
  have "(pods (get_kubernetes_pods k q) = []) =
      (length (sort_pods (sort_by q) (sort_order q) (process_pods (statuses q) all_pods))
         \<le> nat ((q_page q - 1) * q_page_size q))"
    using sz by (simp add: get_kubernetes_pods_success [OF nz assms(2)] Let_def py_slice_window [OF a b])
  also have "\<dots> = (int (length (process_pods (statuses q) all_pods)) \<le> (q_page q - 1) * q_page_size q)"
    using a by (simp add: length_sort_pods) linarith
  finally show ?thesis .
qed

lemma beyond_last_page_within_total:
  assumes "valid_query q" and "fetch_pods k q = Inr (all_pods, flagged)"
    and "pagination (get_kubernetes_pods k q) = Some info"
    and "total_pages info < q_page q"
  shows "\<not> has_next info
     \<and> (int (length (process_pods (statuses q) all_pods)) \<le> total_items info \<longrightarrow>
          pods (get_kubernetes_pods k q) = [])
     \<and> (length (process_pods (statuses q) all_pods) \<le> 1000 \<longrightarrow> pods (get_kubernetes_pods k q) = [])"
proof -
  let ?ps = "sort_pods (sort_by q) (sort_order q) (process_pods (statuses q) all_pods)"
  let ?start = "(q_page q - 1) * q_page_size q"
  let ?total = "snd (reported_total q all_pods flagged ?ps)"
  have sz: "0 < q_page_size q" and nz: "q_page_size q \<noteq> 0" and a: "0 \<le> ?start" and b: "0 \<le> q_page_size q"
    using assms(1) by (simp_all add: valid_query_def)
  note r = get_kubernetes_pods_success [OF nz assms(2)]
  have ti: "total_items info = ?total"
    and tp: "total_pages info = (if ?total > 0 then (?total + q_page_size q - 1) div q_page_size q else 1)"
    and hn: "has_next info = (?start + q_page_size q < ?total)"
    using assms(3) unfolding r Let_def by auto
  have "?total \<le> total_pages info * q_page_size q"
    unfolding tp by (rule total_le_pages [OF sz])
  also have "\<dots> \<le> ?start"
    using assms(4) sz by (intro mult_right_mono) auto
  finally have le: "?total \<le> ?start" .
  have nh: "\<not> has_next info"
    using le sz by (simp add: hn)
  have emp: "pods (get_kubernetes_pods k q) = []"
    if cov: "int (length (process_pods (statuses q) all_pods)) \<le> total_items info"
  proof -
    have "int (length ?ps) \<le> ?total"
      using cov by (simp add: ti length_sort_pods)
    then have "length ?ps \<le> nat ?start"
      using le by linarith
    then show ?thesis
      by (simp add: r Let_def py_slice_window [OF a b])
  qed
  have cov: "int (length (process_pods (statuses q) all_pods)) \<le> total_items info"
    if small: "length (process_pods (statuses q) all_pods) \<le> 1000"
    using small by (simp add: ti reported_total_def length_sort_pods)
  show ?thesis
    using nh emp cov by blast
qed

text \<open>
  C7. A page beyond the reported last page (\<open>page > total_pages\<close>) is to be empty with
  \<open>has_next\<close> false, also under the sentinel total of 1000. \<open>has_next\<close> is false there, and
  the page is empty as long as the reported total covers the filtered records
  (\<open>beyond_last_page_within_total\<close>), as it does on the cluster-wide path, which holds at
  most 1000 pods. The namespace loop holds more: with 999 pods in namespace \<open>a\<close>, 1000 in
  \<open>b\<close> and page size 1000 it holds 1999 pods, the reported total is 1000 and there is one
  page, yet page 2 returns 999 records. The branch that would report the larger total,
  \<^verbatim>\<open>max(1000, total_items)\<close>, is never reached (\<open>fetch_pods_flag\<close>).
\<close>

theorem beyond_last_page_returns_records:
  "valid_query (mk_query 2 1000 ''name'' ''asc'' [''a'', ''b''] [])
   \<and> fetch_pods big_cluster (mk_query 2 1000 ''name'' ''asc'' [''a'', ''b''] []) =
        Inr (numbered_pods ''a'' 999 @ numbered_pods ''b'' 1000, True)
   \<and> length (numbered_pods ''a'' 999 @ numbered_pods ''b'' 1000) = 1999
   \<and> pagination (get_kubernetes_pods big_cluster (mk_query 2 1000 ''name'' ''asc'' [''a'', ''b''] [])) =
        Some \<lparr> page = 2, page_size = 1000, total_items = 1000, total_pages = 1,
               has_next = False, has_previous = True, max_limit_reached = True \<rparr>
   \<and> length (pods (get_kubernetes_pods big_cluster (mk_query 2 1000 ''name'' ''asc'' [''a'', ''b''] []))) = 999
   \<and> pods (get_kubernetes_pods big_cluster (mk_query 2 1000 ''name'' ''asc'' [''a'', ''b''] [])) \<noteq> []"
proof -
  let ?q = "mk_query 2 1000 ''name'' ''asc'' [''a'', ''b''] []"
  have v: "valid_query ?q"
    by (simp add: valid_query_def mk_query_sel)
  have nz: "q_page_size ?q \<noteq> 0"
    by (simp add: mk_query_sel)
  note f = fetch_big [of 2 "''name''" "''asc''"]
  have p: "pagination (get_kubernetes_pods big_cluster ?q) =
        Some \<lparr> page = 2, page_size = 1000, total_items = 1000, total_pages = 1,
               has_next = False, has_previous = True, max_limit_reached = True \<rparr>"
    by (simp add: get_kubernetes_pods_success [OF nz f] Let_def reported_total_def
        max_fetch_limit_def mk_query_sel length_numbered_pods)
  have "pods (get_kubernetes_pods big_cluster ?q) =
      py_slice (sort_pods ''name'' ''asc'' (process_pods [] (numbered_pods ''a'' 999 @ numbered_pods ''b'' 1000)))
        1000 (1000 + 1000)"
    by (simp add: get_kubernetes_pods_success [OF nz f] Let_def mk_query_sel)
  then have l: "length (pods (get_kubernetes_pods big_cluster ?q)) = 999"
    by (simp only: length_py_slice_window length_sort_pods length_process_pods_none
        length_append length_numbered_pods)
  then have "pods (get_kubernetes_pods big_cluster ?q) \<noteq> []"
    by auto
  moreover have "length (numbered_pods ''a'' 999 @ numbered_pods ''b'' 1000) = 1999"
    by (simp add: length_numbered_pods)
  ultimately show ?thesis
    using v f p l by blast
qed

subsection \<open>Sorting\<close>

lemma stably_sorted_by_all_keys:
  "stably_sorted_by f descending xs ys =
     ((if descending then sorted (rev (map f ys)) else sorted (map f ys))
      \<and> (\<forall>k. filter (\<lambda>x. f x = k) ys = filter (\<lambda>x. f x = k) xs))"
proof -
  have "filter (\<lambda>x. f x = k) ys = filter (\<lambda>x. f x = k) xs" if "k \<notin> f ` set (xs @ ys)" for k
  proof -
    have "filter (\<lambda>x. f x = k) ys = []" and "filter (\<lambda>x. f x = k) xs = []"
      using that by (auto simp: filter_empty_conv)
    then show ?thesis
      by simp
  qed
  then have "list_all (\<lambda>k. filter (\<lambda>x. f x = k) ys = filter (\<lambda>x. f x = k) xs) (map f (xs @ ys))
      = (\<forall>k. filter (\<lambda>x. f x = k) ys = filter (\<lambda>x. f x = k) xs)"
    unfolding list_all_iff by (metis list.set_map)
  then show ?thesis
    by (simp add: stably_sorted_by_def)
qed

lemma py_sort_stably_sorted: "stably_sorted_by f r xs (py_sort f r xs)"
proof (cases r)
  case True
  have "sorted (rev (map f (rev (sort_key f (rev xs)))))"
    by (simp add: rev_map [symmetric])
  moreover have "filter (\<lambda>x. f x = k) (rev (sort_key f (rev xs))) = filter (\<lambda>x. f x = k) xs" for k
    by (simp add: rev_filter [symmetric] sort_key_stable)
  ultimately show ?thesis
    using True by (simp add: stably_sorted_by_all_keys py_sort_def)
next
  case False
  then show ?thesis
    by (simp add: stably_sorted_by_all_keys py_sort_def sort_key_stable)
qed

lemma lower_DESC: "lower ''DESC'' = ''desc''"
  by code_simp

lemma lower_asc: "lower ''asc'' = ''asc''"
  by code_simp

lemma lower_desc: "lower ''desc'' = ''desc''"
  by code_simp

lemma mixed_unfiltered:
  "process_pods [] mixed_pods = map make_pod_info mixed_pods"
  by (simp add: process_pods_eq)

lemma mixed_by_phase_desc:
  "map name (sort_pods ''phase'' ''DESC'' (process_pods [] mixed_pods)) = [''r1'', ''r2'', ''p1'', ''f1'']"
  unfolding mixed_unfiltered
  by (simp add: sort_pods_def lower_DESC py_sort_def mixed_pods_def make_pod_info_mk_pod)

lemma abc_sorted_desc:
  "sort_pods ''bogus'' ''desc'' (process_pods [] abc_pods) =
    map make_pod_info [mk_pod ''a'' ''c'' ''Running'' 1 True, mk_pod ''a'' ''b'' ''Running'' 1 True,
      mk_pod ''a'' ''a'' ''Running'' 1 True]"
  by (simp add: process_pods_eq sort_pods_def lower_desc py_sort_def abc_pods_def make_pod_info_mk_pod)

text \<open>
  C6 (as the code has it). The records are stably sorted by the requested key among
  \<open>namespace\<close>, \<open>phase\<close>, \<open>created_timestamp\<close> (lexicographic) and \<open>restart_count\<close>
  (numeric), descending when the lowered sort order is \<^verbatim>\<open>desc\<close> and ascending otherwise;
  for \<open>name\<close> and for every unrecognized key they are stably sorted by name, in the
  requested order as well.
\<close>

theorem sort_pods_stably_sorted:
  "(sb = ''namespace'' \<longrightarrow>
      stably_sorted_by namespace (lower so = ''desc'') xs (sort_pods sb so xs))
   \<and> (sb = ''phase'' \<longrightarrow>
      stably_sorted_by phase (lower so = ''desc'') xs (sort_pods sb so xs))
   \<and> (sb = ''created_timestamp'' \<longrightarrow>
      stably_sorted_by created_timestamp (lower so = ''desc'') xs (sort_pods sb so xs))
   \<and> (sb = ''restart_count'' \<longrightarrow>
      stably_sorted_by restart_count (lower so = ''desc'') xs (sort_pods sb so xs))
   \<and> (sb \<notin> {''namespace'', ''phase'', ''created_timestamp'', ''restart_count''} \<longrightarrow>
      stably_sorted_by name (lower so = ''desc'') xs (sort_pods sb so xs))"
  by (simp add: sort_pods_def Let_def py_sort_stably_sorted)

theorem sort_pods_stably_sorted_witness:
  "map name (sort_pods ''phase'' ''DESC'' (process_pods [] mixed_pods)) = [''r1'', ''r2'', ''p1'', ''f1'']
   \<and> map name (process_pods [] mixed_pods) = [''r1'', ''p1'', ''f1'', ''r2'']
   \<and> stably_sorted_by phase True (process_pods [] mixed_pods)
        (sort_pods ''phase'' ''DESC'' (process_pods [] mixed_pods))
   \<and> stably_sorted_by name True (process_pods [] abc_pods)
        (sort_pods ''bogus'' ''desc'' (process_pods [] abc_pods))
   \<and> stably_sorted_by restart_count False (process_pods [] abc_pods)
        (sort_pods ''restart_count'' ''asc'' (process_pods [] abc_pods))"
proof -
  have "stably_sorted_by phase (lower ''DESC'' = ''desc'') (process_pods [] mixed_pods)
        (sort_pods ''phase'' ''DESC'' (process_pods [] mixed_pods))"
    using sort_pods_stably_sorted [of "''phase''" "''DESC''" "process_pods [] mixed_pods"] by simp
  then have a: "stably_sorted_by phase True (process_pods [] mixed_pods)
        (sort_pods ''phase'' ''DESC'' (process_pods [] mixed_pods))"
    by (simp add: lower_DESC)
  have "stably_sorted_by name (lower ''desc'' = ''desc'') (process_pods [] abc_pods)
        (sort_pods ''bogus'' ''desc'' (process_pods [] abc_pods))"
    using sort_pods_stably_sorted [of "''bogus''" "''desc''" "process_pods [] abc_pods"] by simp
  then have b: "stably_sorted_by name True (process_pods [] abc_pods)
        (sort_pods ''bogus'' ''desc'' (process_pods [] abc_pods))"
    by (simp add: lower_desc)
  have "stably_sorted_by restart_count (lower ''asc'' = ''desc'') (process_pods [] abc_pods)
        (sort_pods ''restart_count'' ''asc'' (process_pods [] abc_pods))"
    using sort_pods_stably_sorted [of "''restart_count''" "''asc''" "process_pods [] abc_pods"] by simp
  then have c: "stably_sorted_by restart_count False (process_pods [] abc_pods)
        (sort_pods ''restart_count'' ''asc'' (process_pods [] abc_pods))"
    by (simp add: lower_asc)
  have d: "map name (process_pods [] mixed_pods) = [''r1'', ''p1'', ''f1'', ''r2'']"
    unfolding mixed_unfiltered by (simp add: mixed_pods_def make_pod_info_mk_pod)
  show ?thesis
    using mixed_by_phase_desc d a b c by blast
qed

text \<open>
  An unrecognized sort key with order \<^verbatim>\<open>desc\<close>: the first page of the pods \<open>c\<close>, \<open>a\<close>,
  \<open>b\<close> is \<open>c\<close>, \<open>b\<close>, which is not ascending by name.
\<close>

theorem unknown_sort_key_descending_counterexample:
  "map name (pods (get_kubernetes_pods abc_cluster (mk_query 1 2 ''bogus'' ''desc'' [] []))) = [''c'', ''b'']
   \<and> \<not> sorted (map name (pods (get_kubernetes_pods abc_cluster (mk_query 1 2 ''bogus'' ''desc'' [] []))))"
proof -
  let ?q = "mk_query 1 2 ''bogus'' ''desc'' [] []"
  have nz: "q_page_size ?q \<noteq> 0"
    by (simp add: mk_query_sel)
  have "map name (pods (get_kubernetes_pods abc_cluster ?q)) = [''c'', ''b'']"
    by (simp add: get_kubernetes_pods_success [OF nz fetch_abc_all] Let_def mk_query_sel
        abc_sorted_desc py_slice_def clamp_index_def make_pod_info_mk_pod)
  then show ?thesis
    by simp
qed

section \<open>Pod deletion\<close>

lemma read_abc_c:
  "read_namespaced_pod abc_cluster ''c'' ''a'' = Inr (mk_pod ''a'' ''c'' ''Running'' 1 True)"
  by (simp add: abc_cluster_def demo_cluster_def abc_pods_def mk_pod_def)

lemma read_mixed_p1:
  "read_namespaced_pod mixed_cluster ''p1'' ''d'' = Inr (mk_pod ''d'' ''p1'' ''Pending'' 1 False)"
  by (simp add: mixed_cluster_def demo_cluster_def mixed_pods_def mk_pod_def)

lemma delete_mixed: "delete_namespaced_pod mixed_cluster n ns = Inr ()"
  by (simp add: mixed_cluster_def demo_cluster_def)

lemma status_phase_mk_pod: "status_phase (status (mk_pod ns n ph c r)) = ph"
  by (simp add: mk_pod_def)

text \<open>
  C4. For a delete request whose pod is read with phase \<^verbatim>\<open>Running\<close> or \<^verbatim>\<open>Succeeded\<close>, the
  response has \<open>success\<close> false and the message \<^verbatim>\<open>Cannot delete pod\<close>, and the only call
  made on the cluster is the read: no delete call. Whenever a delete call is made, the pod
  was read and its phase is neither \<^verbatim>\<open>Running\<close> nor \<^verbatim>\<open>Succeeded\<close>.
\<close>

theorem protected_phase_blocks_delete:
  "(\<forall>pod. read_namespaced_pod k (dr_name r) (dr_namespace r) = Inr pod
        \<and> status_phase (status pod) \<in> {''Running'', ''Succeeded''} \<longrightarrow>
      success (fst (delete_kubernetes_pod k r)) = False
      \<and> message (fst (delete_kubernetes_pod k r)) = ''Cannot delete pod''
      \<and> snd (delete_kubernetes_pod k r) = [ReadPod (dr_name r) (dr_namespace r)]
      \<and> \<not> list_ex is_delete_call (snd (delete_kubernetes_pod k r)))
   \<and> (list_ex is_delete_call (snd (delete_kubernetes_pod k r)) \<longrightarrow>
        (\<exists>pod. read_namespaced_pod k (dr_name r) (dr_namespace r) = Inr pod
           \<and> status_phase (status pod) \<notin> {''Running'', ''Succeeded''}))"
  by (auto simp: delete_kubernetes_pod_def Let_def is_delete_call_def
      split: sum.splits exn.splits if_splits)

theorem protected_phase_blocks_delete_witness:
  "read_namespaced_pod abc_cluster ''c'' ''a'' = Inr (mk_pod ''a'' ''c'' ''Running'' 1 True)
   \<and> success (fst (delete_kubernetes_pod abc_cluster \<lparr> dr_name = ''c'', dr_namespace = ''a'' \<rparr>)) = False
   \<and> message (fst (delete_kubernetes_pod abc_cluster \<lparr> dr_name = ''c'', dr_namespace = ''a'' \<rparr>)) =
        ''Cannot delete pod''
   \<and> snd (delete_kubernetes_pod abc_cluster \<lparr> dr_name = ''c'', dr_namespace = ''a'' \<rparr>) =
        [ReadPod ''c'' ''a'']
   \<and> delete_kubernetes_pod mixed_cluster \<lparr> dr_name = ''p1'', dr_namespace = ''d'' \<rparr> =
        (\<lparr> success = True, message = ''Pod p1 in namespace d deleted successfully'', del_error = None \<rparr>,
         [ReadPod ''p1'' ''d'', DeletePod ''p1'' ''d''])
   \<and> (\<exists>pod. read_namespaced_pod mixed_cluster ''p1'' ''d'' = Inr pod
         \<and> status_phase (status pod) \<notin> {''Running'', ''Succeeded''})"
proof -
  let ?r = "\<lparr> dr_name = ''c'', dr_namespace = ''a'' \<rparr>"
  let ?s = "\<lparr> dr_name = ''p1'', dr_namespace = ''d'' \<rparr>"
  have a: "success (fst (delete_kubernetes_pod abc_cluster ?r)) = False
      \<and> message (fst (delete_kubernetes_pod abc_cluster ?r)) = ''Cannot delete pod''
      \<and> snd (delete_kubernetes_pod abc_cluster ?r) = [ReadPod ''c'' ''a'']"
    using protected_phase_blocks_delete [of abc_cluster ?r] read_abc_c
    by (simp add: status_phase_mk_pod)
  have d: "delete_kubernetes_pod mixed_cluster ?s =
        (\<lparr> success = True, message = ''Pod p1 in namespace d deleted successfully'', del_error = None \<rparr>,
         [ReadPod ''p1'' ''d'', DeletePod ''p1'' ''d''])"
    by (simp add: delete_kubernetes_pod_def Let_def read_mixed_p1 delete_mixed status_phase_mk_pod)
  have "list_ex is_delete_call (snd (delete_kubernetes_pod mixed_cluster ?s))"
    unfolding d by (simp add: is_delete_call_def)
  then have e: "\<exists>pod. read_namespaced_pod mixed_cluster ''p1'' ''d'' = Inr pod
         \<and> status_phase (status pod) \<notin> {''Running'', ''Succeeded''}"
    using protected_phase_blocks_delete [of mixed_cluster ?s] by simp
  show ?thesis
    using read_abc_c a d e by blast
qed


section \<open>The IMDS denylist of the HTTP relay\<close>







lemma render_host_only: "h \<in> set imds_hosts \<Longrightarrow> root_path_rendering (''http://'' @ h) = ''http://'' @ h @ ''/''"
  by (auto simp: imds_hosts_def root_path_rendering_def)




end
